theory Spec2Isabelle
  imports Main "HOL-Library.AList" "HOL-Library.Sublist" "HOL-Library.Word"
    "HOL-Library.Code_Target_Numeral"
begin

section \<open>JavaScript values\<close>

text \<open>
  The values that flow through \<open>src/nftfi/offers.js\<close> and the class \<open>MultisigGnosisOwner\<close>:
  plain data. An object is an ordinary object (its prototype is \<open>Object.prototype\<close>), given
  by the list of its own enumerable properties, read with \<open>map_of\<close> (the first entry of a
  key is the property); an array is an ordinary array, given by its elements. \<open>JNum w\<close> is
  the number \<open>sint w\<close>: the integers from \<open>-2^53\<close> up to \<open>2^53 - 1\<close>, each of which a double
  holds exactly and prints with all its decimal digits (no array or string is longer than
  that). Functions, symbols and the other numbers do not occur in the data modelled.
\<close>

datatype jsval =
    JUndefined
  | JNull
  | JBool bool
  | JNum "54 word"
  | JStr string
  | JArr "jsval list"
  | JObj "(string \<times> jsval) list"

text \<open>What a failing call raises. \<open>Thrown\<close> is an error raised (or a promise rejected) by an
  injected collaborator; it is propagated unchanged, since no method has a \<open>try\<close>.\<close>

datatype error =
    TypeError
  | ReferenceError
  | Thrown jsval

definition bind_err :: "error + 'a \<Rightarrow> ('a \<Rightarrow> error + 'b) \<Rightarrow> error + 'b" where
  "bind_err m f = (case m of Inl e \<Rightarrow> Inl e | Inr x \<Rightarrow> f x)"

text \<open>ToBoolean: the test of \<open>if\<close>, \<open>&&\<close> and \<open>||\<close>.\<close>

fun truthy :: "jsval \<Rightarrow> bool" where
  "truthy JUndefined = False"
| "truthy JNull = False"
| "truthy (JBool b) = b"
| "truthy (JNum w) = (w \<noteq> 0)"
| "truthy (JStr s) = (s \<noteq> [])"
| "truthy (JArr xs) = True"
| "truthy (JObj ps) = True"

fun nullish :: "jsval \<Rightarrow> bool" where
  "nullish JUndefined = True"
| "nullish JNull = True"
| "nullish v = False"

text \<open>\<open>a || b\<close> on values already computed (the right operand has no effect where this is used).\<close>

definition js_or :: "jsval \<Rightarrow> jsval \<Rightarrow> jsval" where
  "js_or a b = (if truthy a then a else b)"

text \<open>Decimal digits of an index or number, as \<open>String(n)\<close> writes them.\<close>

fun show_nat :: "nat \<Rightarrow> string" where
  "show_nat n =
     (if n < 10 then [char_of (48 + n)]
      else show_nat (n div 10) @ [char_of (48 + n mod 10)])"

declare show_nat.simps [simp del]

definition show_int :: "int \<Rightarrow> string" where
  "show_int i = (if i < 0 then CHR ''-'' # show_nat (nat (- i)) else show_nat (nat i))"

text \<open>The own enumerable properties of a value, which is what an object spread copies:
  the entries of an object, the indexed elements of an array, the indexed characters of a
  string, and nothing for the other primitives.\<close>

fun own_props :: "jsval \<Rightarrow> (string \<times> jsval) list" where
  "own_props (JObj ps) = ps"
| "own_props (JArr xs) = zip (map show_nat [0..<length xs]) xs"
| "own_props (JStr s) = zip (map show_nat [0..<length s]) (map (\<lambda>c. JStr [c]) s)"
| "own_props v = []"

text \<open>Reading a property \<open>v.k\<close> of a value that is neither \<open>undefined\<close> nor \<open>null\<close>.
  The names read by the code modelled here are data names (\<open>listing\<close>, \<open>nftfi\<close>,
  \<open>contract\<close>, \<open>name\<close>, \<open>filters\<close>, \<open>nft\<close>, ...), none of which is inherited from a
  built-in prototype, so an own property or \<open>undefined\<close> is the result.\<close>

definition get_own :: "jsval \<Rightarrow> string \<Rightarrow> jsval" where
  "get_own v k =
     (case map_of (own_props v) k of
        Some x \<Rightarrow> x
      | None \<Rightarrow>
          (if k = ''length'' then
             (case v of JArr xs \<Rightarrow> JNum (of_nat (length xs))
                      | JStr s \<Rightarrow> JNum (of_nat (length s))
                      | _ \<Rightarrow> JUndefined)
           else JUndefined))"

text \<open>\<open>v.k\<close>: a TypeError on \<open>undefined\<close> and \<open>null\<close>.\<close>

definition get_prop :: "jsval \<Rightarrow> string \<Rightarrow> error + jsval" where
  "get_prop v k = (if nullish v then Inl TypeError else Inr (get_own v k))"

text \<open>\<open>v?.k\<close>: \<open>undefined\<close> on \<open>undefined\<close> and \<open>null\<close>.\<close>

definition opt_chain :: "jsval \<Rightarrow> string \<Rightarrow> jsval" where
  "opt_chain v k = (if nullish v then JUndefined else get_own v k)"

text \<open>Copying the own enumerable properties of \<open>src\<close> onto the property list \<open>target\<close>, as a
  spread element does: each property is set in turn; a key the target has already keeps
  its place and takes the new value, a new key is added at the end. A JavaScript object has
  every key once; \<open>clearjunk\<close> passes such a list through unchanged and keeps the first
  entry of a key otherwise, which is the entry \<open>map_of\<close> reads. (JavaScript lists
  integer-like keys before the others; nothing here depends on the order.)\<close>

definition copy_props :: "(string \<times> jsval) list \<Rightarrow> jsval \<Rightarrow> (string \<times> jsval) list" where
  "copy_props target src =
     fold (\<lambda>(k, v). AList.update k v) (AList.clearjunk (own_props src)) target"

text \<open>The object literal \<open>{ ...a, ...b }\<close>.\<close>

definition spread2 :: "jsval \<Rightarrow> jsval \<Rightarrow> jsval" where
  "spread2 a b = JObj (copy_props (copy_props [] a) b)"

text \<open>
  ToString, as a template literal applies it. An array is its elements joined by commas,
  each converted in turn, with \<open>undefined\<close> and \<open>null\<close> elements written as nothing; the
  first element that cannot be converted raises. An object is converted by its \<open>toString\<close>
  method: the inherited one gives \<open>[object Object]\<close>; an own property \<open>toString\<close> hides it,
  and since a property here holds data, not a function, neither it nor \<open>valueOf\<close> yields a
  primitive and the conversion raises a TypeError.
\<close>

fun join_comma :: "(error + string) list \<Rightarrow> error + string" where
  "join_comma [] = Inr []"
| "join_comma [r] = r"
| "join_comma (r # q # rs) =
     bind_err r (\<lambda>s. bind_err (join_comma (q # rs)) (\<lambda>t. Inr (s @ '','' @ t)))"

fun to_string :: "jsval \<Rightarrow> error + string" where
  "to_string JUndefined = Inr ''undefined''"
| "to_string JNull = Inr ''null''"
| "to_string (JBool b) = Inr (if b then ''true'' else ''false'')"
| "to_string (JNum w) = Inr (show_int (sint w))"
| "to_string (JStr s) = Inr s"
| "to_string (JArr xs) =
     join_comma (map (\<lambda>x. if nullish x then Inr [] else to_string x) xs)"
| "to_string (JObj ps) =
     (if map_of ps ''toString'' = None then Inr ''[object Object]'' else Inl TypeError)"

section \<open>MultisigGnosisOwner\<close>

text \<open>The collaborators of the class. Each call either yields a value or raises; awaiting a
  rejected promise raises in the caller, so both are \<open>Inl\<close>.\<close>

record signer_obj =
  signer_getAddress :: "error + jsval"
  signer_signMessage :: "jsval \<Rightarrow> error + jsval"

record ethers_lib =
  computeAddress :: "jsval \<Rightarrow> error + jsval"
  hashMessage :: "jsval \<Rightarrow> error + jsval"
  typedDataHash :: "jsval \<Rightarrow> jsval \<Rightarrow> jsval \<Rightarrow> error + jsval"
  arrayify :: "jsval \<Rightarrow> error + jsval"
  newWallet :: "jsval \<Rightarrow> error + signer_obj"

text \<open>The private fields set by the constructor from the same-named options. A signer that
  was not supplied is \<open>None\<close> (the field is \<open>undefined\<close>).\<close>

record owner =
  multisig :: jsval
  config :: jsval
  ethers :: ethers_lib
  privateKey :: jsval
  signer :: "signer_obj option"

definition getPrivateKey :: "owner \<Rightarrow> jsval" where
  "getPrivateKey ow = privateKey ow"

definition getSigner :: "owner \<Rightarrow> signer_obj option" where
  "getSigner ow = signer ow"

text \<open>
  \<^verbatim>\<open>const signerAddress = await this.#signer?.getAddress()\<close>
  \<^verbatim>\<open>return signerAddress || this.#ethers.utils.computeAddress(this.#privateKey);\<close>
\<close>

definition getAddress :: "owner \<Rightarrow> error + jsval" where
  "getAddress ow =
     bind_err (case signer ow of None \<Rightarrow> Inr JUndefined | Some s \<Rightarrow> signer_getAddress s)
       (\<lambda>signerAddress.
          if truthy signerAddress then Inr signerAddress
          else computeAddress (ethers ow) (privateKey ow))"

text \<open>
  \<open>String.prototype.replace\<close> with the patterns \<open>/1b$/\<close> and \<open>/1c$/\<close>: a literal followed by
  the end of the input (no flags, so \<open>$\<close> is the end of the string only). The search tries
  each start position from the left; the pattern matches at a position exactly when the
  rest of the string is the literal, and the first match is replaced.
\<close>

fun replace_end :: "string \<Rightarrow> string \<Rightarrow> string \<Rightarrow> string" where
  "replace_end pat rep [] = (if pat = [] then rep else [])"
| "replace_end pat rep (c # cs) = (if c # cs = pat then rep else c # replace_end pat rep cs)"

text \<open>\<open>v.replace(...)\<close> on the awaited value: only a string has the method; reading it from
  \<open>undefined\<close> or \<open>null\<close>, or calling what another value has there, is a TypeError.\<close>

definition js_replace_end :: "string \<Rightarrow> string \<Rightarrow> jsval \<Rightarrow> error + jsval" where
  "js_replace_end pat rep v =
     (case v of JStr s \<Rightarrow> Inr (JStr (replace_end pat rep s)) | _ \<Rightarrow> Inl TypeError)"

text \<open>The body of \<open>sign\<close> up to and including \<^verbatim>\<open>await wallet.signMessage(...)\<close>: the
  signature as the signer, or the wallet made from the private key, produced it.\<close>

definition wallet_signature :: "owner \<Rightarrow> jsval \<Rightarrow> error + jsval" where
  "wallet_signature ow msg =
     bind_err (get_prop (multisig ow) ''safe'') (\<lambda>safe.
     bind_err (get_prop safe ''address'') (\<lambda>verifyingContract.
     bind_err (get_prop (config ow) ''chainId'') (\<lambda>chainId.
     let SafeMessage = JArr [JObj [(''type'', JStr ''bytes''), (''name'', JStr ''message'')]] in
     bind_err (hashMessage (ethers ow) msg) (\<lambda>message.
     bind_err (typedDataHash (ethers ow)
                 (JObj [(''verifyingContract'', verifyingContract), (''chainId'', chainId)])
                 (JObj [(''SafeMessage'', SafeMessage)])
                 (JObj [(''message'', message)])) (\<lambda>hash.
     bind_err (case getSigner ow of
                 Some s \<Rightarrow> Inr s
               | None \<Rightarrow> newWallet (ethers ow) (getPrivateKey ow)) (\<lambda>wallet.
     bind_err (arrayify (ethers ow) hash) (\<lambda>bytes.
     signer_signMessage wallet bytes)))))))"

text \<open>
  \<^verbatim>\<open>let signature = (await wallet.signMessage(...)).replace(/1b$/, '1f').replace(/1c$/, '20');\<close>
\<close>

definition sign :: "owner \<Rightarrow> jsval \<Rightarrow> error + jsval" where
  "sign ow msg =
     bind_err (wallet_signature ow msg) (\<lambda>s0.
     bind_err (js_replace_end ''1b'' ''1f'' s0) (\<lambda>s1.
     js_replace_end ''1c'' ''20'' s1))"

section \<open>Offers\<close>

text \<open>The calls made on the injected collaborators, in the order they are made.\<close>

datatype event =
    AccountGetAddress
  | ApiGet jsval
  | ApiPost jsval
  | ConstructV2Offer jsval

text \<open>A computation yields the calls it made and either an error or a value.\<close>

type_synonym 'a eff = "event list \<times> (error + 'a)"

definition ret :: "'a \<Rightarrow> 'a eff" where
  "ret x = ([], Inr x)"

definition lift_err :: "error + 'a \<Rightarrow> 'a eff" where
  "lift_err r = ([], r)"

definition call :: "event \<Rightarrow> error + 'a \<Rightarrow> 'a eff" where
  "call ev r = ([ev], r)"

definition bind_eff :: "'a eff \<Rightarrow> ('a \<Rightarrow> 'b eff) \<Rightarrow> 'b eff" where
  "bind_eff m f =
     (case m of
        (l, Inl e) \<Rightarrow> (l, Inl e)
      | (l, Inr x) \<Rightarrow> (case f x of (l', r) \<Rightarrow> (l @ l', r)))"

text \<open>The private fields \<open>#account\<close>, \<open>#api\<close> and \<open>#helper\<close> of an \<open>Offers\<close> instance, as the
  results of the methods the class calls on them, and the names that are properties of
  the global object where the module runs.\<close>

record offers_env =
  account_getAddress :: "error + jsval"
  api_get :: "jsval \<Rightarrow> error + jsval"
  api_post :: "jsval \<Rightarrow> error + jsval"
  helper_constructV2Offer :: "jsval \<Rightarrow> error + jsval"
  global_names :: "string list"

subsection \<open>get\<close>

text \<open>\<^verbatim>\<open>options?.filters?.nft\<close>\<close>

definition nft_filter :: "jsval \<Rightarrow> jsval" where
  "nft_filter options = opt_chain (opt_chain options ''filters'') ''nft''"

text \<open>The \<open>if\<close> cascade that chooses \<open>params\<close>. Inside the first branch \<open>options.filters.nft\<close>
  is truthy, so the plain property reads there cannot raise.\<close>

definition get_params :: "offers_env \<Rightarrow> jsval \<Rightarrow> jsval eff" where
  "get_params env options =
     (let nft = nft_filter options in
      if truthy nft then
        (if truthy (get_own nft ''address'') \<and> truthy (opt_chain nft ''id'') then
           ret (JObj [(''nftAddress'', get_own nft ''address''), (''nftId'', get_own nft ''id'')])
         else if truthy (get_own nft ''address'') then
           ret (JObj [(''nftAddress'', get_own nft ''address'')])
         else ret (JObj []))
      else
        bind_eff (call AccountGetAddress (account_getAddress env)) (\<lambda>a.
        ret (JObj [(''lenderAddress'', a)])))"

text \<open>\<open>async get(options = {})\<close>: the default applies to \<open>undefined\<close> only.\<close>

definition get :: "offers_env \<Rightarrow> jsval \<Rightarrow> jsval eff" where
  "get env options0 =
     (let options = (if options0 = JUndefined then JObj [] else options0) in
      bind_eff (get_params env options) (\<lambda>params.
      let request = JObj [(''uri'', JStr ''offers''), (''params'', params)] in
      bind_eff (call (ApiGet request) (api_get env request)) (\<lambda>response.
      lift_err (get_prop response ''results''))))"

subsection \<open>create\<close>

text \<open>\<^verbatim>\<open>options = { ...options.listing, ...options };\<close>\<close>

definition merge_listing :: "jsval \<Rightarrow> error + jsval" where
  "merge_listing options =
     bind_err (get_prop options ''listing'') (\<lambda>listing. Inr (spread2 listing options))"

text \<open>\<^verbatim>\<open>const simulationDryRun = options?.simulation?.dryRun || false\<close>\<close>

definition simulationDryRun :: "jsval \<Rightarrow> jsval" where
  "simulationDryRun options =
     js_or (opt_chain (opt_chain options ''simulation'') ''dryRun'') (JBool False)"

text \<open>\<^verbatim>\<open>const contractName = options.nftfi.contract.name;\<close>\<close>

definition contractName :: "jsval \<Rightarrow> error + jsval" where
  "contractName options =
     bind_err (get_prop options ''nftfi'') (\<lambda>nftfi.
     bind_err (get_prop nftfi ''contract'') (\<lambda>contract.
     get_prop contract ''name''))"

text \<open>
  The names bound where the body of \<open>create\<close> runs: its parameter, its \<open>let\<close> and \<open>const\<close>
  declarations, and the class declared by the module. The file is an ES module and the
  code is a class body, so it is strict code: an assignment \<open>x = v\<close> to a name that is
  neither bound there nor a property of the global object raises a ReferenceError (after
  the right-hand side has been evaluated); otherwise the value is stored, and a later read
  of \<open>x\<close> gives it.
\<close>

definition declared_names :: "string list" where
  "declared_names =
     [''options'', ''errors'', ''simulationDryRun'', ''contractName'', ''payload'', ''Offers'']"

definition put_value :: "offers_env \<Rightarrow> string \<Rightarrow> jsval \<Rightarrow> error + jsval" where
  "put_value env x v =
     (if x \<in> set declared_names \<or> x \<in> set (global_names env) then Inr v
      else Inl ReferenceError)"

definition create :: "offers_env \<Rightarrow> jsval \<Rightarrow> jsval eff" where
  "create env options0 =
     bind_eff (lift_err (merge_listing options0)) (\<lambda>options.
     let dryRun = simulationDryRun options in
     bind_eff (lift_err (contractName options)) (\<lambda>name.
     if name = JStr ''v2-1.loan.fixed'' then
       bind_eff (call (ConstructV2Offer options) (helper_constructV2Offer env options)) (\<lambda>payload.
       if dryRun = JBool False then
         (let request = JObj [(''uri'', JStr ''offers''), (''payload'', payload)] in
          bind_eff (call (ApiPost request) (api_post env request)) (\<lambda>posted.
          bind_eff (lift_err (put_value env ''response'' posted)) (\<lambda>response.
          ret response)))
       else
         bind_eff (lift_err (put_value env ''response'' payload)) (\<lambda>response.
         ret response))
     else
       bind_eff (lift_err (to_string name)) (\<lambda>shown.
       let errors = JObj [(''nftfi.contract.name'', JArr [JStr (shown @ '' not supported'')])] in
       bind_eff (lift_err (put_value env ''response'' (JObj [(''errors'', errors)]))) (\<lambda>response.
       ret response))))"

subsection \<open>Sample collaborators\<close>

text \<open>An API that answers every request, a helper that wraps the options it is given, and a
  global object without a property \<open>response\<close>.\<close>

definition sample_env :: offers_env where
  "sample_env =
     \<lparr> account_getAddress = Inr (JStr ''0xlender''),
       api_get = (\<lambda>request. Inr (JObj [(''results'', JArr [])])),
       api_post = (\<lambda>request. Inr (JObj [(''result'', JStr ''ok'')])),
       helper_constructV2Offer = (\<lambda>options. Inr (JObj [(''offer'', options)])),
       global_names = [''globalThis'', ''console''] \<rparr>"

definition sample_ethers :: ethers_lib where
  "sample_ethers =
     \<lparr> computeAddress = (\<lambda>key. Inr (JStr ''0xfromkey'')),
       hashMessage = (\<lambda>msg. Inr (JStr ''0xmessagehash'')),
       typedDataHash = (\<lambda>dom tys v. Inr (JStr ''0xtypedhash'')),
       arrayify = (\<lambda>hex. Inr (JArr [])),
       newWallet = (\<lambda>key. Inr \<lparr> signer_getAddress = Inr (JStr ''0xfromkey''),
                                signer_signMessage = (\<lambda>bytes. Inr (JStr ''0xaa1c'')) \<rparr>) \<rparr>"

definition sample_owner :: "signer_obj option \<Rightarrow> owner" where
  "sample_owner sg =
     \<lparr> multisig = JObj [(''safe'', JObj [(''address'', JStr ''0xsafe'')])],
       config = JObj [(''chainId'', JNum 1)],
       ethers = sample_ethers,
       privateKey = JStr ''0xkey'',
       signer = sg \<rparr>"

definition sample_signer :: "jsval \<Rightarrow> string \<Rightarrow> signer_obj" where
  "sample_signer addr sig =
     \<lparr> signer_getAddress = Inr addr, signer_signMessage = (\<lambda>bytes. Inr (JStr sig)) \<rparr>"

text \<open>Options for \<open>get\<close> with an NFT filter, and for \<open>create\<close> with a contract name.\<close>

definition opts_nft :: "(string \<times> jsval) list \<Rightarrow> jsval" where
  "opts_nft ps = JObj [(''filters'', JObj [(''nft'', JObj ps)])]"

definition opts_contract :: "string \<Rightarrow> (string \<times> jsval) list \<Rightarrow> jsval" where
  "opts_contract name ps =
     JObj (ps @ [(''nftfi'', JObj [(''contract'', JObj [(''name'', JStr name)])])])"

definition listing_example :: jsval where
  "listing_example =
     JObj [(''listing'', JObj [(''a'', JNum 1), (''b'', JNum 3)]),
           (''a'', JNum 2),
           (''nftfi'', JObj [(''contract'', JObj [(''name'', JStr ''v2-1.loan.fixed'')])])]"


section \<open>The signature suffix rewritten by sign\<close>

lemma replace_end_suffix:
  "replace_end pat rep (p @ pat) = p @ rep"
proof (induction p)
  case Nil
  show ?case by (cases pat) simp_all
next
  case (Cons c p)
  then show ?case by simp
qed

lemma replace_end_no_suffix:
  "\<not> suffix pat s \<Longrightarrow> replace_end pat rep s = s"
  by (induction s) (auto simp: suffix_Cons)

lemma suffix_same_length_conv:
  "length a = length b \<Longrightarrow> suffix a (p @ b) \<longleftrightarrow> a = b"
  by (auto simp: suffix_def)



lemma suffix_rewrite_1b:
  "replace_end ''1c'' ''20'' (replace_end ''1b'' ''1f'' (p @ ''1b'')) = p @ ''1f''"
  unfolding replace_end_suffix
  by (rule replace_end_no_suffix) (simp add: suffix_same_length_conv)

lemma suffix_rewrite_1c:
  "replace_end ''1c'' ''20'' (replace_end ''1b'' ''1f'' (p @ ''1c'')) = p @ ''20''"
proof -
  have "replace_end ''1b'' ''1f'' (p @ ''1c'') = p @ ''1c''"
    by (rule replace_end_no_suffix) (simp add: suffix_same_length_conv)
  then show ?thesis
    by (simp only: replace_end_suffix)
qed

lemma suffix_rewrite_other:
  "\<not> suffix ''1b'' s \<Longrightarrow> \<not> suffix ''1c'' s \<Longrightarrow>
   replace_end ''1c'' ''20'' (replace_end ''1b'' ''1f'' s) = s"
  by (simp add: replace_end_no_suffix)

lemma suffix_rewrite_cases:
  fixes s :: string
  defines "t \<equiv> replace_end ''1c'' ''20'' (replace_end ''1b'' ''1f'' s)"
  obtains p where "s = p @ ''1b''" "t = p @ ''1f''"
  | p where "s = p @ ''1c''" "t = p @ ''20''"
  | "t = s"
proof (cases "suffix ''1b'' s")
  case True
  then obtain p where "s = p @ ''1b''" by (auto simp: suffix_def)
  then show ?thesis using that(1) suffix_rewrite_1b t_def by blast
next
  case nb: False
  show ?thesis
  proof (cases "suffix ''1c'' s")
    case True
    then obtain p where "s = p @ ''1c''" by (auto simp: suffix_def)
    then show ?thesis using that(2) suffix_rewrite_1c t_def by blast
  next
    case False
    then show ?thesis using that(3) suffix_rewrite_other nb t_def by blast
  qed
qed

lemma suffix_rewrite_length:
  "length (replace_end ''1c'' ''20'' (replace_end ''1b'' ''1f'' s)) = length s"
  by (rule suffix_rewrite_cases [of s]) simp_all

lemma suffix_rewrite_prefix:
  "take (length s - 2) (replace_end ''1c'' ''20'' (replace_end ''1b'' ''1f'' s)) =
   take (length s - 2) s"
  by (rule suffix_rewrite_cases [of s]) simp_all

lemma sign_of_wallet_signature:
  "wallet_signature ow msg = Inr (JStr s) \<Longrightarrow>
   sign ow msg = Inr (JStr (replace_end ''1c'' ''20'' (replace_end ''1b'' ''1f'' s)))"
  by (simp add: sign_def bind_err_def js_replace_end_def)

text \<open>
  C6. Whatever string the wallet's \<open>signMessage\<close> resolves to, \<open>sign\<close> returns a string: if
  the wallet's signature ends in \<open>1b\<close> that suffix is replaced by \<open>1f\<close>, if it ends in
  \<open>1c\<close> the suffix is replaced by \<open>20\<close>, and otherwise the signature is returned as it
  is. The result has the length of the wallet's signature and agrees with it on
  everything before the last two characters (the trailing byte).
\<close>

theorem sign_rewrites_recovery_suffix:
  assumes "wallet_signature ow msg = Inr (JStr s)"
  shows "\<exists>t. sign ow msg = Inr (JStr t) \<and>
           (\<forall>p. s = p @ ''1b'' \<longrightarrow> t = p @ ''1f'') \<and>
           (\<forall>p. s = p @ ''1c'' \<longrightarrow> t = p @ ''20'') \<and>
           (\<not> suffix ''1b'' s \<and> \<not> suffix ''1c'' s \<longrightarrow> t = s) \<and>
           length t = length s \<and>
           take (length s - 2) t = take (length s - 2) s"
proof (intro exI conjI allI impI)
  show "sign ow msg = Inr (JStr (replace_end ''1c'' ''20'' (replace_end ''1b'' ''1f'' s)))"
    by (rule sign_of_wallet_signature [OF assms])
next
  fix p assume "s = p @ ''1b''"
  then show "replace_end ''1c'' ''20'' (replace_end ''1b'' ''1f'' s) = p @ ''1f''"
    by (simp only: suffix_rewrite_1b)
next
  fix p assume "s = p @ ''1c''"
  then show "replace_end ''1c'' ''20'' (replace_end ''1b'' ''1f'' s) = p @ ''20''"
    by (simp only: suffix_rewrite_1c)
next
  assume "\<not> suffix ''1b'' s \<and> \<not> suffix ''1c'' s"
  then show "replace_end ''1c'' ''20'' (replace_end ''1b'' ''1f'' s) = s"
    by (simp add: suffix_rewrite_other)
next
  show "length (replace_end ''1c'' ''20'' (replace_end ''1b'' ''1f'' s)) = length s"
    by (rule suffix_rewrite_length)
next
  show "take (length s - 2) (replace_end ''1c'' ''20'' (replace_end ''1b'' ''1f'' s)) =
        take (length s - 2) s"
    by (rule suffix_rewrite_prefix)
qed

lemma wallet_signature_sample_key: "wallet_signature (sample_owner None) (JArr []) = Inr (JStr ''0xaa1c'')"
  by (simp add: wallet_signature_def sample_owner_def sample_ethers_def bind_err_def
      get_prop_def get_own_def getSigner_def getPrivateKey_def)

lemma wallet_signature_sample_signer:
  "wallet_signature (sample_owner (Some (sample_signer a sg))) (JArr []) = Inr (JStr sg)"
  by (simp add: wallet_signature_def sample_owner_def sample_ethers_def bind_err_def
      get_prop_def get_own_def getSigner_def sample_signer_def)

theorem sign_rewrites_recovery_suffix_witness:
  "sign (sample_owner (Some (sample_signer (JStr ''0xsigner'') ''0xab1b1b''))) (JArr [])
     = Inr (JStr ''0xab1b1f'') \<and>
   sign (sample_owner None) (JArr []) = Inr (JStr ''0xaa20'') \<and>
   sign (sample_owner (Some (sample_signer (JStr ''0xsigner'') ''0x1c1b00''))) (JArr [])
     = Inr (JStr ''0x1c1b00'')"
proof (intro conjI)
  show "sign (sample_owner (Some (sample_signer (JStr ''0xsigner'') ''0xab1b1b''))) (JArr [])
     = Inr (JStr ''0xab1b1f'')"
    using sign_rewrites_recovery_suffix [OF wallet_signature_sample_signer [of "JStr ''0xsigner''" "''0xab1b1b''"]]
    by (auto dest: spec [of _ "''0xab1b''"])
next
  show "sign (sample_owner None) (JArr []) = Inr (JStr ''0xaa20'')"
    using sign_rewrites_recovery_suffix [OF wallet_signature_sample_key]
    by (auto dest: spec [of _ "''0xaa''"])
next
  show "sign (sample_owner (Some (sample_signer (JStr ''0xsigner'') ''0x1c1b00''))) (JArr [])
     = Inr (JStr ''0x1c1b00'')"
    using sign_rewrites_recovery_suffix [OF wallet_signature_sample_signer [of "JStr ''0xsigner''" "''0x1c1b00''"]]
    by (auto simp: suffix_def Cons_eq_append_conv)
qed

section \<open>The address of the owner\<close>

text \<open>
  C8, as stated, fails. With a signer whose \<open>getAddress\<close> resolves to the empty string and
  a private key also supplied, \<open>getAddress\<close> does not return what the signer gave: the
  \<open>||\<close> falls through to the address computed from the key.
\<close>

theorem getAddress_signer_counterexample:
  "signer (sample_owner (Some (sample_signer (JStr '''') ''0x00''))) = Some (sample_signer (JStr '''') ''0x00'') \<and>
   signer_getAddress (sample_signer (JStr '''') ''0x00'') = Inr (JStr '''') \<and>
   privateKey (sample_owner (Some (sample_signer (JStr '''') ''0x00''))) = JStr ''0xkey'' \<and>
   getAddress (sample_owner (Some (sample_signer (JStr '''') ''0x00''))) = Inr (JStr ''0xfromkey'') \<and>
   getAddress (sample_owner (Some (sample_signer (JStr '''') ''0x00''))) \<noteq> Inr (JStr '''')"
  by (simp add: getAddress_def sample_owner_def sample_signer_def sample_ethers_def bind_err_def)

text \<open>
  C8, amended. If a signer was supplied and its \<open>getAddress\<close> resolves to a truthy value,
  \<open>getAddress\<close> returns that value, whatever the private key is; if no signer was supplied,
  \<open>getAddress\<close> is the address computed from the stored private key (or the error that
  computation raises).
\<close>

theorem getAddress_signer_or_key:
  "(signer ow = Some s \<and> signer_getAddress s = Inr a \<and> truthy a \<longrightarrow> getAddress ow = Inr a) \<and>
   (signer ow = None \<longrightarrow> getAddress ow = computeAddress (ethers ow) (privateKey ow))"
  by (simp add: getAddress_def bind_err_def)

theorem getAddress_signer_or_key_witness:
  "getAddress (sample_owner (Some (sample_signer (JStr ''0xsigner'') ''0x00''))) = Inr (JStr ''0xsigner'') \<and>
   getAddress (sample_owner None) = Inr (JStr ''0xfromkey'')"
proof
  show "getAddress (sample_owner (Some (sample_signer (JStr ''0xsigner'') ''0x00''))) = Inr (JStr ''0xsigner'')"
    using getAddress_signer_or_key [of "sample_owner (Some (sample_signer (JStr ''0xsigner'') ''0x00''))"
        "sample_signer (JStr ''0xsigner'') ''0x00''" "JStr ''0xsigner''"]
    by (simp add: sample_owner_def sample_signer_def)
next
  show "getAddress (sample_owner None) = Inr (JStr ''0xfromkey'')"
    using getAddress_signer_or_key [of "sample_owner None"]
    by (simp add: sample_owner_def sample_ethers_def)
qed

text \<open>
  C10. If a signer was supplied and its \<open>getAddress\<close> resolves to a falsy value,
  \<open>getAddress\<close> is the address computed from the stored private key.
\<close>

theorem getAddress_falsy_signer_falls_back:
  assumes "signer ow = Some s" and "signer_getAddress s = Inr a" and "\<not> truthy a"
  shows "getAddress ow = computeAddress (ethers ow) (privateKey ow)"
  using assms by (simp add: getAddress_def bind_err_def)

theorem getAddress_falsy_signer_falls_back_witness:
  "getAddress (sample_owner (Some (sample_signer (JStr '''') ''0x00''))) = Inr (JStr ''0xfromkey'')"
  using getAddress_falsy_signer_falls_back [of "sample_owner (Some (sample_signer (JStr '''') ''0x00''))"
        "sample_signer (JStr '''') ''0x00''" "JStr ''''"]
  by (simp add: sample_owner_def sample_signer_def sample_ethers_def)


section \<open>The query made by get\<close>

lemma nft_filter_default:
  "nft_filter (if options0 = JUndefined then JObj [] else options0) = nft_filter options0"
  by (simp add: nft_filter_def opt_chain_def get_own_def)

lemma get_log_nft:
  "get_params env (if options0 = JUndefined then JObj [] else options0) = ([], Inr params) \<Longrightarrow>
   fst (get env options0) = [ApiGet (JObj [(''uri'', JStr ''offers''), (''params'', params)])]"
  by (simp add: get_def Let_def bind_eff_def call_def lift_err_def split: sum.splits prod.splits)

lemma get_log_account:
  "get_params env (if options0 = JUndefined then JObj [] else options0) = ([AccountGetAddress], Inr params) \<Longrightarrow>
   fst (get env options0) = [AccountGetAddress, ApiGet (JObj [(''uri'', JStr ''offers''), (''params'', params)])]"
  by (simp add: get_def Let_def bind_eff_def call_def lift_err_def split: sum.splits prod.splits)

text \<open>
  C5, as stated, fails: the code tests truthiness, not presence. With the filter
  \<open>{address: "0xabc", id: 0}\<close> both fields are present, and the API is queried with
  \<open>params = {nftAddress: "0xabc"}\<close>, without \<open>nftId\<close>. With the filter \<open>{}\<close>, which has neither
  an address nor an id, the API is queried with \<open>params = {}\<close>, and the account is not asked
  for the lender's address.
\<close>

theorem get_params_presence_counterexample:
  "map_of (own_props (nft_filter (opts_nft [(''address'', JStr ''0xabc''), (''id'', JNum 0)])))
       ''address'' = Some (JStr ''0xabc'') \<and>
   map_of (own_props (nft_filter (opts_nft [(''address'', JStr ''0xabc''), (''id'', JNum 0)])))
       ''id'' = Some (JNum 0) \<and>
   fst (get sample_env (opts_nft [(''address'', JStr ''0xabc''), (''id'', JNum 0)])) =
     [ApiGet (JObj [(''uri'', JStr ''offers''),
                    (''params'', JObj [(''nftAddress'', JStr ''0xabc'')])])] \<and>
   fst (get sample_env (opts_nft [(''address'', JStr ''0xabc''), (''id'', JNum 0)])) \<noteq>
     [ApiGet (JObj [(''uri'', JStr ''offers''),
                    (''params'', JObj [(''nftAddress'', JStr ''0xabc''), (''nftId'', JNum 0)])])] \<and>
   own_props (nft_filter (opts_nft [])) = [] \<and>
   fst (get sample_env (opts_nft [])) =
     [ApiGet (JObj [(''uri'', JStr ''offers''), (''params'', JObj [])])] \<and>
   fst (get sample_env (opts_nft [])) \<noteq>
     [AccountGetAddress,
      ApiGet (JObj [(''uri'', JStr ''offers''),
                    (''params'', JObj [(''lenderAddress'', JStr ''0xlender'')])])]"
  by (simp add: get_def get_params_def nft_filter_def opts_nft_def opt_chain_def get_own_def
      bind_eff_def ret_def call_def lift_err_def get_prop_def sample_env_def)

text \<open>
  C5, amended. A filter counts when it is truthy. With a truthy \<open>options.filters.nft\<close>: if
  its \<open>address\<close> and \<open>id\<close> are both truthy, the only call is the API query with
  \<open>params = {nftAddress, nftId}\<close>; if the \<open>address\<close> is truthy and the \<open>id\<close> is not, the only
  call is the API query with \<open>params = {nftAddress}\<close>. With \<open>options.filters.nft\<close> absent or
  falsy, the account is asked for its address \<open>a\<close> and the API is queried with
  \<open>params = {lenderAddress: a}\<close>.
\<close>

theorem get_params_by_filter:
  "(truthy (nft_filter options) \<and> truthy (get_own (nft_filter options) ''address'')
      \<and> truthy (get_own (nft_filter options) ''id'') \<longrightarrow>
    fst (get env options) =
      [ApiGet (JObj [(''uri'', JStr ''offers''),
                     (''params'', JObj [(''nftAddress'', get_own (nft_filter options) ''address''),
                                        (''nftId'', get_own (nft_filter options) ''id'')])])]) \<and>
   (truthy (nft_filter options) \<and> truthy (get_own (nft_filter options) ''address'')
      \<and> \<not> truthy (get_own (nft_filter options) ''id'') \<longrightarrow>
    fst (get env options) =
      [ApiGet (JObj [(''uri'', JStr ''offers''),
                     (''params'', JObj [(''nftAddress'', get_own (nft_filter options) ''address'')])])]) \<and>
   (\<not> truthy (nft_filter options) \<and> account_getAddress env = Inr a \<longrightarrow>
    fst (get env options) =
      [AccountGetAddress,
       ApiGet (JObj [(''uri'', JStr ''offers''), (''params'', JObj [(''lenderAddress'', a)])])])"
proof (intro conjI impI)
  assume h: "truthy (nft_filter options) \<and> truthy (get_own (nft_filter options) ''address'')
      \<and> truthy (get_own (nft_filter options) ''id'')"
  then have "\<not> nullish (nft_filter options)" by (cases "nft_filter options") simp_all
  with h show "fst (get env options) =
      [ApiGet (JObj [(''uri'', JStr ''offers''),
                     (''params'', JObj [(''nftAddress'', get_own (nft_filter options) ''address''),
                                        (''nftId'', get_own (nft_filter options) ''id'')])])]"
    by (intro get_log_nft) (simp add: get_params_def Let_def nft_filter_default ret_def opt_chain_def)
next
  assume h: "truthy (nft_filter options) \<and> truthy (get_own (nft_filter options) ''address'')
      \<and> \<not> truthy (get_own (nft_filter options) ''id'')"
  then have "\<not> nullish (nft_filter options)" by (cases "nft_filter options") simp_all
  with h show "fst (get env options) =
      [ApiGet (JObj [(''uri'', JStr ''offers''),
                     (''params'', JObj [(''nftAddress'', get_own (nft_filter options) ''address'')])])]"
    by (intro get_log_nft) (simp add: get_params_def Let_def nft_filter_default ret_def opt_chain_def)
next
  assume h: "\<not> truthy (nft_filter options) \<and> account_getAddress env = Inr a"
  then show "fst (get env options) =
      [AccountGetAddress,
       ApiGet (JObj [(''uri'', JStr ''offers''), (''params'', JObj [(''lenderAddress'', a)])])]"
    by (intro get_log_account)
       (simp add: get_params_def Let_def nft_filter_default ret_def call_def bind_eff_def)
qed

lemma nft_filter_opts_nft: "nft_filter (opts_nft ps) = JObj ps"
  by (simp add: opts_nft_def nft_filter_def opt_chain_def get_own_def)

theorem get_params_by_filter_witness:
  "fst (get sample_env (opts_nft [(''address'', JStr ''0x00000000''), (''id'', JStr ''42'')])) =
     [ApiGet (JObj [(''uri'', JStr ''offers''),
                    (''params'', JObj [(''nftAddress'', JStr ''0x00000000''),
                                       (''nftId'', JStr ''42'')])])] \<and>
   fst (get sample_env (opts_nft [(''address'', JStr ''0x00000000'')])) =
     [ApiGet (JObj [(''uri'', JStr ''offers''),
                    (''params'', JObj [(''nftAddress'', JStr ''0x00000000'')])])] \<and>
   fst (get sample_env JUndefined) =
     [AccountGetAddress,
      ApiGet (JObj [(''uri'', JStr ''offers''),
                    (''params'', JObj [(''lenderAddress'', JStr ''0xlender'')])])]"
proof (intro conjI)
  show "fst (get sample_env (opts_nft [(''address'', JStr ''0x00000000''), (''id'', JStr ''42'')])) =
     [ApiGet (JObj [(''uri'', JStr ''offers''),
                    (''params'', JObj [(''nftAddress'', JStr ''0x00000000''),
                                       (''nftId'', JStr ''42'')])])]"
    using get_params_by_filter
      [of "opts_nft [(''address'', JStr ''0x00000000''), (''id'', JStr ''42'')]" sample_env]
    by (simp add: nft_filter_opts_nft get_own_def)
next
  show "fst (get sample_env (opts_nft [(''address'', JStr ''0x00000000'')])) =
     [ApiGet (JObj [(''uri'', JStr ''offers''),
                    (''params'', JObj [(''nftAddress'', JStr ''0x00000000'')])])]"
    using get_params_by_filter [of "opts_nft [(''address'', JStr ''0x00000000'')]" sample_env]
    by (simp add: nft_filter_opts_nft get_own_def)
next
  show "fst (get sample_env JUndefined) =
     [AccountGetAddress,
      ApiGet (JObj [(''uri'', JStr ''offers''),
                    (''params'', JObj [(''lenderAddress'', JStr ''0xlender'')])])]"
    using get_params_by_filter [of JUndefined sample_env "JStr ''0xlender''"]
    by (simp add: nft_filter_def opt_chain_def sample_env_def)
qed

text \<open>
  C9. With \<open>options.filters.nft\<close> present and its \<open>address\<close> absent or falsy, the only call
  is the API query with the empty \<open>params\<close> object.
\<close>

theorem get_nft_without_address_empty_params:
  assumes "truthy (nft_filter options)" and "\<not> truthy (get_own (nft_filter options) ''address'')"
  shows "fst (get env options) = [ApiGet (JObj [(''uri'', JStr ''offers''), (''params'', JObj [])])]"
  using assms
  by (intro get_log_nft) (simp add: get_params_def Let_def nft_filter_default ret_def)


theorem get_nft_without_address_empty_params_witness:
  "fst (get sample_env (opts_nft [(''id'', JStr ''42'')])) =
     [ApiGet (JObj [(''uri'', JStr ''offers''), (''params'', JObj [])])] \<and>
   fst (get sample_env (opts_nft [])) =
     [ApiGet (JObj [(''uri'', JStr ''offers''), (''params'', JObj [])])]"
  using get_nft_without_address_empty_params [of "opts_nft [(''id'', JStr ''42'')]" sample_env]
    get_nft_without_address_empty_params [of "opts_nft []" sample_env]
  by (simp add: nft_filter_opts_nft get_own_def)

section \<open>What create does\<close>

subsection \<open>The merged options\<close>

lemma map_of_fold_update:
  "distinct (map fst ps) \<Longrightarrow>
   map_of (fold (\<lambda>(k, v). AList.update k v) ps qs) = map_of qs ++ map_of ps"
proof (induction ps arbitrary: qs)
  case Nil
  show ?case by simp
next
  case (Cons p ps)
  obtain k v where p: "p = (k, v)" by (cases p)
  from Cons.prems p have k: "map_of ps k = None" and d: "distinct (map fst ps)"
    by (auto simp: map_of_eq_None_iff)
  show ?case
  proof (rule ext)
    fix x
    show "map_of (fold (\<lambda>(k, v). AList.update k v) (p # ps) qs) x
          = (map_of qs ++ map_of (p # ps)) x"
      using k by (simp add: p Cons.IH [OF d] map_add_def update_conv split: option.splits)
  qed
qed

lemma map_of_copy_props:
  "map_of (copy_props target src) = map_of target ++ map_of (own_props src)"
  by (simp add: copy_props_def map_of_fold_update distinct_clearjunk map_of_clearjunk)

lemma map_of_spread2:
  "spread2 a b = JObj ps \<Longrightarrow> map_of ps = map_of (own_props a) ++ map_of (own_props b)"
  by (auto simp: spread2_def map_of_copy_props)


lemma bind_eff_lift_Inr: "bind_eff (lift_err (Inr x)) f = f x"
  by (simp add: bind_eff_def lift_err_def split: prod.splits)

lemma bind_eff_call_starts:
  "\<exists>rest r. bind_eff (call ev h) f = (ev # rest, r)"
  by (cases h) (auto simp: bind_eff_def call_def split: prod.splits)

lemmas eval_create =
  merge_listing_def opts_contract_def get_prop_def get_own_def bind_err_def spread2_def
  copy_props_def contractName_def opt_chain_def sample_env_def

text \<open>
  C7. For options that are an object (or any value other than \<open>undefined\<close> and \<open>null\<close>), the
  merged options are an object in which every property of the root has the root's value,
  and every other key has the value it has under \<open>options.listing\<close>; and when the contract
  name is the supported one, the first call \<open>create\<close> makes is the helper's
  \<open>constructV2Offer\<close> on these merged options.
\<close>

theorem create_merge_root_over_listing:
  assumes "\<not> nullish options"
  shows "\<exists>ps. merge_listing options = Inr (JObj ps) \<and>
           (\<forall>k. map_of ps k =
                  (case map_of (own_props options) k of
                     Some v \<Rightarrow> Some v
                   | None \<Rightarrow> map_of (own_props (get_own options ''listing'')) k)) \<and>
           (contractName (JObj ps) = Inr (JStr ''v2-1.loan.fixed'') \<longrightarrow>
              (\<exists>rest r. create env options = (ConstructV2Offer (JObj ps) # rest, r)))"
proof -
  obtain ps where ps: "spread2 (get_own options ''listing'') options = JObj ps"
    by (simp add: spread2_def)
  have m: "merge_listing options = Inr (JObj ps)"
    using assms ps by (simp add: merge_listing_def get_prop_def bind_err_def)
  have l: "map_of ps k =
             (case map_of (own_props options) k of
                Some v \<Rightarrow> Some v
              | None \<Rightarrow> map_of (own_props (get_own options ''listing'')) k)" for k
    by (simp add: map_of_spread2 [OF ps] map_add_def)
  have c: "\<exists>rest r. create env options = (ConstructV2Offer (JObj ps) # rest, r)"
    if "contractName (JObj ps) = Inr (JStr ''v2-1.loan.fixed'')"
    using bind_eff_call_starts
    by (simp add: create_def m that bind_eff_lift_Inr Let_def)
  from m l c show ?thesis by blast
qed

lemma merge_listing_example:
  "merge_listing listing_example =
     Inr (JObj [(''a'', JNum 2), (''b'', JNum 3),
                (''listing'', JObj [(''a'', JNum 1), (''b'', JNum 3)]),
                (''nftfi'', JObj [(''contract'', JObj [(''name'', JStr ''v2-1.loan.fixed'')])])])"
  by (simp add: listing_example_def eval_create)

theorem create_merge_root_over_listing_witness:
  "\<exists>ps. merge_listing listing_example = Inr (JObj ps) \<and>
         map_of ps ''a'' = Some (JNum 2) \<and> map_of ps ''b'' = Some (JNum 3) \<and>
         (\<exists>rest r. create sample_env listing_example = (ConstructV2Offer (JObj ps) # rest, r))"
proof -
  have n: "\<not> nullish listing_example" by (simp add: listing_example_def)
  from create_merge_root_over_listing [OF n, of sample_env]
  obtain ps where ps: "merge_listing listing_example = Inr (JObj ps)"
    and l: "\<And>k. map_of ps k =
                  (case map_of (own_props listing_example) k of
                     Some v \<Rightarrow> Some v
                   | None \<Rightarrow> map_of (own_props (get_own listing_example ''listing'')) k)"
    and c: "contractName (JObj ps) = Inr (JStr ''v2-1.loan.fixed'') \<longrightarrow>
              (\<exists>rest r. create sample_env listing_example = (ConstructV2Offer (JObj ps) # rest, r))"
    by blast
  have a: "map_of ps ''a'' = Some (JNum 2)" and b: "map_of ps ''b'' = Some (JNum 3)"
    by (simp_all add: l listing_example_def get_own_def)
  have "JObj ps = JObj [(''a'', JNum 2), (''b'', JNum 3),
                (''listing'', JObj [(''a'', JNum 1), (''b'', JNum 3)]),
                (''nftfi'', JObj [(''contract'', JObj [(''name'', JStr ''v2-1.loan.fixed'')])])]"
    using ps by (simp add: merge_listing_example)
  then have "contractName (JObj ps) = Inr (JStr ''v2-1.loan.fixed'')"
    by (simp only:) (simp add: contractName_def get_prop_def get_own_def bind_err_def)
  with c ps a b show ?thesis by blast
qed

subsection \<open>The assignment to response\<close>











text \<open>A name that cannot be converted to a string makes the template literal raise
  before the assignment is reached.\<close>

lemma create_unprintable_name_raises:
  "create sample_env
     (JObj [(''nftfi'', JObj [(''contract'', JObj [(''name'', JObj [(''toString'', JNum 1)])])])])
     = ([], Inl TypeError)"
  by (simp add: create_def eval_create bind_eff_def lift_err_def)

text \<open>
  C1, at the options \<open>{nftfi: {contract: {name: "v1.loan.fixed"}}}\<close>: no collaborator is
  called, and the call raises a ReferenceError where the errors object was to be returned.
\<close>

theorem create_unsupported_name_raises:
  "create sample_env (opts_contract ''v1.loan.fixed'' []) = ([], Inl ReferenceError)"
  by (simp add: create_def eval_create bind_eff_def lift_err_def put_value_def declared_names_def)

text \<open>
  C3, at the options \<open>{nftfi: {contract: {name: "v2-1.loan.fixed"}}}\<close>: the helper is called
  on the merged options and its payload is posted to \<open>offers\<close>, then the call raises a
  ReferenceError where the API response was to be returned.
\<close>

theorem create_posts_then_raises:
  "create sample_env (opts_contract ''v2-1.loan.fixed'' [])
     = ([ConstructV2Offer (opts_contract ''v2-1.loan.fixed'' []),
         ApiPost (JObj [(''uri'', JStr ''offers''),
                        (''payload'', JObj [(''offer'', opts_contract ''v2-1.loan.fixed'' [])])])],
        Inl ReferenceError)"
  by (simp add: create_def eval_create bind_eff_def lift_err_def call_def put_value_def
      declared_names_def simulationDryRun_def js_or_def)

text \<open>
  C4, at the options \<open>{simulation: {dryRun: true}, nftfi: {contract: {name: "v2-1.loan.fixed"}}}\<close>:
  the helper is called, nothing is posted, and the call raises a ReferenceError where the
  payload was to be returned.
\<close>

theorem create_dry_run_raises:
  "create sample_env (opts_contract ''v2-1.loan.fixed''
       [(''simulation'', JObj [(''dryRun'', JBool True)])])
     = ([ConstructV2Offer (opts_contract ''v2-1.loan.fixed''
                             [(''simulation'', JObj [(''dryRun'', JBool True)])])],
        Inl ReferenceError)"
  by (simp add: create_def eval_create bind_eff_def lift_err_def call_def put_value_def
      declared_names_def simulationDryRun_def js_or_def)


end
